theory Spec2Isabelle
  imports Main
begin

section \<open>JavaScript values, thrown errors and HTTP responses\<close>

text \<open>
  The relay of \<^verbatim>\<open>server.js\<close> moves JavaScript values between an HTTP client and the
  Cloudinary SDK. A value is one of the JSON shapes or \<^verbatim>\<open>undefined\<close>; an object is
  the list of its properties in insertion order. Numbers are the integers the
  provider reports (width, height); no handler computes with them.
\<close>

datatype jsval =
    JUndefined
  | JNull
  | JBool bool
  | JNum int
  | JStr string
  | JArr "jsval list"
  | JObj "(string \<times> jsval) list"

text \<open>
  What a \<^verbatim>\<open>catch (err)\<close> of the handlers receives: the object that was thrown or
  that a promise rejected with, given by its properties. The engine throws
  \<^verbatim>\<open>TypeError\<close> objects, the file system and the SDK reject with objects. Which
  properties such an object has is open: an \<^verbatim>\<open>Error\<close> has a \<^verbatim>\<open>message\<close>,
  but the SDK also rejects with plain objects it builds from the provider's reply, and
  those need not have one.
\<close>

datatype js_error = Thrown "(string \<times> jsval) list"

text \<open>\<^verbatim>\<open>new Error(m)\<close>, and the \<^verbatim>\<open>TypeError\<close> the engine raises inside a handler.\<close>

definition Error :: "string \<Rightarrow> js_error" where
  "Error m = Thrown [(''name'', JStr ''Error''), (''message'', JStr m)]"

definition TypeError :: "string \<Rightarrow> js_error" where
  "TypeError m = Thrown [(''name'', JStr ''TypeError''), (''message'', JStr m)]"

text \<open>\<^verbatim>\<open>err.message\<close>: the property, or \<^verbatim>\<open>undefined\<close> when \<open>err\<close> has none.\<close>

fun message :: "js_error \<Rightarrow> jsval" where
  "message (Thrown fs) = (case map_of fs ''message'' of None \<Rightarrow> JUndefined | Some v \<Rightarrow> v)"

text \<open>
  The message of the TypeError that reading property \<open>k\<close> of \<^verbatim>\<open>undefined\<close> or
  \<^verbatim>\<open>null\<close> raises. Its wording is the engine's (here V8's); no handler inspects
  it, the \<^verbatim>\<open>catch\<close> blocks only pass it on.
\<close>

definition cannot_read :: "string \<Rightarrow> string \<Rightarrow> string" where
  "cannot_read what k =
     ''Cannot read properties of '' @ what @ '' (reading '' @ [CHR 0x27] @ k @ [CHR 0x27] @ '')''"

text \<open>
  Property access \<^verbatim>\<open>v.k\<close>. Reading a property of \<^verbatim>\<open>undefined\<close> or
  \<^verbatim>\<open>null\<close> raises a TypeError; an object yields the property or
  \<^verbatim>\<open>undefined\<close>. The handlers only read \<^verbatim>\<open>resources\<close>,
  \<^verbatim>\<open>secure_url\<close>, \<^verbatim>\<open>public_id\<close>, \<^verbatim>\<open>width\<close>,
  \<^verbatim>\<open>height\<close>, \<^verbatim>\<open>format\<close> and \<^verbatim>\<open>created_at\<close>, none of which
  a boolean, number, string or array has, so those yield \<^verbatim>\<open>undefined\<close>.
\<close>

fun get_prop :: "jsval \<Rightarrow> string \<Rightarrow> js_error + jsval" where
  "get_prop JUndefined k = Inl (TypeError (cannot_read ''undefined'' k))"
| "get_prop JNull k = Inl (TypeError (cannot_read ''null'' k))"
| "get_prop (JObj fs) k = Inr (case map_of fs k of None \<Rightarrow> JUndefined | Some v \<Rightarrow> v)"
| "get_prop (JBool b) k = Inr JUndefined"
| "get_prop (JNum n) k = Inr JUndefined"
| "get_prop (JStr s) k = Inr JUndefined"
| "get_prop (JArr xs) k = Inr JUndefined"

text \<open>Truthiness, as \<^verbatim>\<open>||\<close> and \<^verbatim>\<open>!\<close> test it.\<close>

fun truthy :: "jsval \<Rightarrow> bool" where
  "truthy JUndefined = False"
| "truthy JNull = False"
| "truthy (JBool b) = b"
| "truthy (JNum n) = (n \<noteq> 0)"
| "truthy (JStr s) = (s \<noteq> [])"
| "truthy (JArr xs) = True"
| "truthy (JObj fs) = True"

text \<open>
  \<^verbatim>\<open>xs.map(f)\<close> where \<open>f\<close> may throw: the elements are visited in order and the
  first exception leaves the loop.
\<close>

fun map_throwing :: "('a \<Rightarrow> js_error + 'b) \<Rightarrow> 'a list \<Rightarrow> js_error + 'b list" where
  "map_throwing f [] = Inr []"
| "map_throwing f (x # xs) =
     (case f x of
        Inl err \<Rightarrow> Inl err
      | Inr y \<Rightarrow> (case map_throwing f xs of Inl err \<Rightarrow> Inl err | Inr ys \<Rightarrow> Inr (y # ys)))"

text \<open>
  \<^verbatim>\<open>v.map(f)\<close> on a value: only an array has a callable \<^verbatim>\<open>map\<close>; on anything
  else the call raises a TypeError (whose wording is again the engine's).
\<close>

fun array_map :: "(jsval \<Rightarrow> js_error + jsval) \<Rightarrow> jsval \<Rightarrow> js_error + jsval" where
  "array_map f (JArr xs) =
     (case map_throwing f xs of Inl err \<Rightarrow> Inl err | Inr ys \<Rightarrow> Inr (JArr ys))"
| "array_map f v = Inl (TypeError ''(response.resources || []).map is not a function'')"

text \<open>
  The response a handler sends: \<^verbatim>\<open>res.status(n)\<close> sets the status (200 when it is
  not called) and \<^verbatim>\<open>res.json(v)\<close> sends \<open>v\<close>. \<open>json\<close> is the value handed to
  \<^verbatim>\<open>res.json\<close>; on the wire a property whose value is \<^verbatim>\<open>undefined\<close> is left
  out of its object.
\<close>

record response =
  status :: nat
  json :: jsval

section \<open>The Cloudinary SDK and the process's surroundings\<close>

text \<open>The file multer stages for the field \<^verbatim>\<open>image\<close>: \<^verbatim>\<open>req.file\<close>.\<close>

record multer_file =
  path :: string
  originalname :: string

text \<open>The options object of \<^verbatim>\<open>cloudinary.uploader.upload\<close> (lines 34 to 39).\<close>

record upload_options =
  folder :: string
  use_filename :: bool
  unique_filename :: bool
  overwrite :: bool

text \<open>The options object of \<^verbatim>\<open>cloudinary.api.resources\<close> (lines 74 to 78).\<close>

record resources_options =
  type :: string
  prefix :: string
  max_results :: nat

text \<open>A call into the SDK, with its arguments.\<close>

datatype remote_call =
    Upload string upload_options
  | Destroy string
  | Resources resources_options

text \<open>
  The SDK is outside the repository: it is a parameter. Each of its three operations
  either resolves to a value or rejects with an error.
\<close>

record cloudinary =
  uploader_upload :: "string \<Rightarrow> upload_options \<Rightarrow> js_error + jsval"
  uploader_destroy :: "string \<Rightarrow> js_error + jsval"
  api_resources :: "resources_options \<Rightarrow> js_error + jsval"

text \<open>
  What a handler can change: the files on disk (multer stages uploads there), the
  lines written by \<^verbatim>\<open>console.error\<close>, and the calls sent to the provider.
  \<open>undeletable\<close> are the paths whose removal the operating system refuses.
\<close>

record world =
  files :: "string set"
  undeletable :: "string set"
  console :: "js_error list"
  requests :: "remote_call list"

fun perform :: "cloudinary \<Rightarrow> remote_call \<Rightarrow> js_error + jsval" where
  "perform c (Upload p opts) = uploader_upload c p opts"
| "perform c (Destroy public_id) = uploader_destroy c public_id"
| "perform c (Resources opts) = api_resources c opts"

text \<open>\<^verbatim>\<open>await\<close> of an SDK call: the call goes out, and its outcome comes back.\<close>

definition await :: "cloudinary \<Rightarrow> remote_call \<Rightarrow> world \<Rightarrow> (js_error + jsval) \<times> world" where
  "await c rc w = (perform c rc, w\<lparr>requests := requests w @ [rc]\<rparr>)"

text \<open>\<^verbatim>\<open>fs.unlink(p)\<close>: rejects when the file is missing or cannot be removed.\<close>

definition fs_unlink :: "string \<Rightarrow> world \<Rightarrow> js_error + world" where
  "fs_unlink p w =
     (if p \<notin> files w then Inl (Error (''ENOENT: no such file or directory, unlink '' @ p))
      else if p \<in> undeletable w then Inl (Error (''EPERM: operation not permitted, unlink '' @ p))
      else Inr (w\<lparr>files := files w - {p}\<rparr>))"

section \<open>The handlers of server.js\<close>

text \<open>
  Line 23: \<^verbatim>\<open>const FOLDER = process.env.FOLDER_NAME || "portfolio-gallery"\<close>. The
  argument is the environment variable, \<open>None\<close> when it is not set; an empty string is
  falsy.
\<close>

definition FOLDER :: "string option \<Rightarrow> string" where
  "FOLDER FOLDER_NAME =
     (case FOLDER_NAME of
        None \<Rightarrow> ''portfolio-gallery''
      | Some s \<Rightarrow> if s = [] then ''portfolio-gallery'' else s)"

text \<open>
  The three \<^verbatim>\<open>catch (err)\<close> blocks are the same: log the error, answer 500 with
  \<^verbatim>\<open>{ error: err.message }\<close>, whatever \<^verbatim>\<open>err.message\<close> is.
\<close>

definition catch :: "js_error \<Rightarrow> world \<Rightarrow> response \<times> world" where
  "catch err w =
     (\<lparr>status = 500, json = JObj [(''error'', message err)]\<rparr>,
      w\<lparr>console := console w @ [err]\<rparr>)"

text \<open>\<^verbatim>\<open>app.post("/upload", upload.single("image"), ...)\<close>, lines 30 to 49.\<close>

definition upload_handler ::
  "string option \<Rightarrow> cloudinary \<Rightarrow> multer_file option \<Rightarrow> world \<Rightarrow> response \<times> world" where
  "upload_handler FOLDER_NAME c file w =
     (case file of
        None \<Rightarrow> (\<lparr>status = 400, json = JObj [(''error'', JStr ''No file'')]\<rparr>, w)
      | Some f \<Rightarrow>
          (case await c (Upload (path f)
                  \<lparr>folder = FOLDER FOLDER_NAME, use_filename = True,
                   unique_filename = True, overwrite = False\<rparr>) w of
             (Inl err, w1) \<Rightarrow> catch err w1
           | (Inr result, w1) \<Rightarrow>
               (let w2 = (case fs_unlink (path f) w1 of Inl _ \<Rightarrow> w1 | Inr w' \<Rightarrow> w') in
                case get_prop result ''secure_url'' of
                  Inl err \<Rightarrow> catch err w2
                | Inr url \<Rightarrow>
                    (case get_prop result ''public_id'' of
                       Inl err \<Rightarrow> catch err w2
                     | Inr public_id \<Rightarrow>
                         (\<lparr>status = 200,
                           json = JObj [(''url'', url), (''public_id'', public_id)]\<rparr>, w2)))))"

text \<open>\<^verbatim>\<open>app.delete("/delete/:public_id", ...)\<close>, lines 55 to 64.\<close>

definition delete_handler :: "cloudinary \<Rightarrow> string \<Rightarrow> world \<Rightarrow> response \<times> world" where
  "delete_handler c public_id w =
     (case await c (Destroy public_id) w of
        (Inl err, w1) \<Rightarrow> catch err w1
      | (Inr result, w1) \<Rightarrow> (\<lparr>status = 200, json = JObj [(''result'', result)]\<rparr>, w1))"

text \<open>The arrow function of lines 80 to 87: one asset summary from one resource.\<close>

definition summary :: "jsval \<Rightarrow> js_error + jsval" where
  "summary r =
     (case get_prop r ''secure_url'' of Inl err \<Rightarrow> Inl err | Inr url \<Rightarrow>
     (case get_prop r ''public_id'' of Inl err \<Rightarrow> Inl err | Inr public_id \<Rightarrow>
     (case get_prop r ''width'' of Inl err \<Rightarrow> Inl err | Inr width \<Rightarrow>
     (case get_prop r ''height'' of Inl err \<Rightarrow> Inl err | Inr height \<Rightarrow>
     (case get_prop r ''format'' of Inl err \<Rightarrow> Inl err | Inr format \<Rightarrow>
     (case get_prop r ''created_at'' of Inl err \<Rightarrow> Inl err | Inr created_at \<Rightarrow>
        Inr (JObj [(''url'', url), (''public_id'', public_id), (''width'', width),
                   (''height'', height), (''format'', format),
                   (''created_at'', created_at)])))))))"

text \<open>\<^verbatim>\<open>app.get("/images", ...)\<close>, lines 71 to 93.\<close>

definition images_handler :: "string option \<Rightarrow> cloudinary \<Rightarrow> world \<Rightarrow> response \<times> world" where
  "images_handler FOLDER_NAME c w =
     (case await c (Resources
             \<lparr>type = ''upload'', prefix = FOLDER FOLDER_NAME @ ''/'', max_results = 200\<rparr>) w of
        (Inl err, w1) \<Rightarrow> catch err w1
      | (Inr response, w1) \<Rightarrow>
          (case get_prop response ''resources'' of
             Inl err \<Rightarrow> catch err w1
           | Inr resources \<Rightarrow>
               (case array_map summary (if truthy resources then resources else JArr []) of
                  Inl err \<Rightarrow> catch err w1
                | Inr images \<Rightarrow> (\<lparr>status = 200, json = images\<rparr>, w1))))"

section \<open>Sample surroundings\<close>

text \<open>
  Two notions the properties speak of. The identifier of an asset, as a resource of a
  listing, the result of an upload or a summary in a reply carries it; and an
  identifier lying under a prefix: it is a string that starts with it.
\<close>

definition public_id_of :: "jsval \<Rightarrow> jsval" where
  "public_id_of v = (case get_prop v ''public_id'' of Inl err \<Rightarrow> JUndefined | Inr p \<Rightarrow> p)"

definition under_prefix :: "string \<Rightarrow> jsval \<Rightarrow> bool" where
  "under_prefix p v = (case v of JStr s \<Rightarrow> take (length p) s = p | _ \<Rightarrow> False)"

text \<open>
  Concrete requests, disks and providers on which the properties below are evaluated.
  \<open>working_cloudinary\<close> answers as the provider's documentation describes: an upload
  resolves to a new asset in the folder asked for, a destroy to
  \<^verbatim>\<open>{result: "ok"}\<close> or \<^verbatim>\<open>{result: "not found"}\<close>, a listing to the assets
  under the prefix asked for, at most \<^verbatim>\<open>max_results\<close> of them, and a cursor for
  the next page.
\<close>

definition staged_file :: multer_file where
  "staged_file = \<lparr>path = ''uploads/3f9c'', originalname = ''cat.png''\<rparr>"

definition staged_world :: world where
  "staged_world =
     \<lparr>files = {''uploads/3f9c''}, undeletable = {}, console = [], requests = []\<rparr>"

definition sample_resources :: "jsval list" where
  "sample_resources =
     [JObj [(''asset_id'', JStr ''a1''), (''public_id'', JStr ''portfolio-gallery/cat_x1''),
            (''format'', JStr ''png''), (''version'', JNum 1), (''resource_type'', JStr ''image''),
            (''created_at'', JStr ''2024-01-01T00:00:00Z''), (''bytes'', JNum 120),
            (''width'', JNum 10), (''height'', JNum 10),
            (''url'', JStr ''http://res.example/cat_x1.png''),
            (''secure_url'', JStr ''https://res.example/cat_x1.png'')],
      JObj [(''asset_id'', JStr ''a2''), (''public_id'', JStr ''portfolio-gallery/dog_y2''),
            (''format'', JStr ''jpg''), (''version'', JNum 7), (''resource_type'', JStr ''image''),
            (''created_at'', JStr ''2024-02-02T00:00:00Z''), (''bytes'', JNum 300),
            (''width'', JNum 20), (''height'', JNum 30),
            (''url'', JStr ''http://res.example/dog_y2.jpg''),
            (''secure_url'', JStr ''https://res.example/dog_y2.jpg'')]]"

definition working_cloudinary :: cloudinary where
  "working_cloudinary =
     \<lparr>uploader_upload = (\<lambda>p opts. Inr (JObj
          [(''asset_id'', JStr ''a1''), (''public_id'', JStr (folder opts @ ''/cat_x1'')),
           (''width'', JNum 10), (''height'', JNum 10), (''format'', JStr ''png''),
           (''secure_url'', JStr ''https://res.example/cat_x1.png'')])),
      uploader_destroy = (\<lambda>public_id. Inr (JObj
          [(''result'',
            JStr (if public_id = ''portfolio-gallery/cat_x1'' then ''ok'' else ''not found''))])),
      api_resources = (\<lambda>opts. Inr (JObj
          [(''resources'', JArr (take (max_results opts)
              (filter (\<lambda>r. under_prefix (prefix opts) (public_id_of r)) sample_resources))),
           (''next_cursor'', JStr ''c7f1'')]))\<rparr>"

text \<open>A provider each of whose calls rejects with an \<^verbatim>\<open>Error\<close>.\<close>

definition failing_cloudinary :: cloudinary where
  "failing_cloudinary =
     \<lparr>uploader_upload = (\<lambda>p opts. Inl (Error ''Request Timeout'')),
      uploader_destroy = (\<lambda>public_id. Inl (Error ''Request Timeout'')),
      api_resources = (\<lambda>opts. Inl (Error ''Request Timeout''))\<rparr>"

text \<open>
  The object the SDK rejects with when it gives up on a call: a plain object that
  wraps the provider's error under \<^verbatim>\<open>error\<close> and has no \<^verbatim>\<open>message\<close> of its
  own. \<open>timed_out_cloudinary\<close> rejects every call with it.
\<close>

definition sdk_timeout :: js_error where
  "sdk_timeout =
     Thrown [(''error'', JObj [(''message'', JStr ''Request Timeout''),
                               (''http_code'', JNum 499), (''name'', JStr ''TimeoutError'')])]"

definition timed_out_cloudinary :: cloudinary where
  "timed_out_cloudinary =
     \<lparr>uploader_upload = (\<lambda>p opts. Inl sdk_timeout),
      uploader_destroy = (\<lambda>public_id. Inl sdk_timeout),
      api_resources = (\<lambda>opts. Inl sdk_timeout)\<rparr>"




text \<open>A provider whose listing carries no \<^verbatim>\<open>resources\<close> property.\<close>

definition bare_cloudinary :: cloudinary where
  "bare_cloudinary =
     \<lparr>uploader_upload = (\<lambda>p opts. Inr JUndefined),
      uploader_destroy = (\<lambda>public_id. Inr JUndefined),
      api_resources = (\<lambda>opts. Inr (JObj [(''rate_limit_remaining'', JNum 499)]))\<rparr>"


section \<open>What each handler does on each outcome of its call\<close>

lemma message_Error [simp]: "message (Error m) = JStr m"
  by (simp add: Error_def)

lemma message_TypeError [simp]: "message (TypeError m) = JStr m"
  by (simp add: TypeError_def)

lemma message_sdk_timeout [simp]: "message sdk_timeout = JUndefined"
  by (simp add: sdk_timeout_def)

lemma upload_rejected:
  assumes "uploader_upload c (path f) \<lparr>folder = FOLDER FOLDER_NAME, use_filename = True,
             unique_filename = True, overwrite = False\<rparr> = Inl err"
  shows "upload_handler FOLDER_NAME c (Some f) w =
           catch err (w\<lparr>requests := requests w @ [Upload (path f)
              \<lparr>folder = FOLDER FOLDER_NAME, use_filename = True,
               unique_filename = True, overwrite = False\<rparr>]\<rparr>)"
  using assms by (simp add: upload_handler_def await_def)

lemma upload_requests:
  "requests (snd (upload_handler FOLDER_NAME c (Some f) w)) =
     requests w @ [Upload (path f) \<lparr>folder = FOLDER FOLDER_NAME, use_filename = True,
        unique_filename = True, overwrite = False\<rparr>]"
  by (auto simp: upload_handler_def await_def Let_def catch_def fs_unlink_def
      split: sum.splits)

text \<open>
  The reply of the upload handler does not depend on the disk: whether the removal of
  the staged file succeeds or fails, the client sees the same response.
\<close>

lemma upload_response_ignores_world:
  "fst (upload_handler FOLDER_NAME c file w) = fst (upload_handler FOLDER_NAME c file w')"
  by (simp add: upload_handler_def await_def Let_def catch_def split: sum.splits option.splits)

text \<open>When the upload resolves, a staged file that can be removed is removed.\<close>

lemma upload_resolved_unlinks:
  assumes "uploader_upload c (path f) \<lparr>folder = FOLDER FOLDER_NAME, use_filename = True,
             unique_filename = True, overwrite = False\<rparr> = Inr result"
    and "path f \<notin> undeletable w"
  shows "path f \<notin> files (snd (upload_handler FOLDER_NAME c (Some f) w))"
  using assms
  by (auto simp: upload_handler_def await_def Let_def catch_def fs_unlink_def
      split: sum.splits)

text \<open>When the upload rejects, the handler leaves the disk as it found it.\<close>

lemma upload_rejected_files:
  assumes "uploader_upload c (path f) \<lparr>folder = FOLDER FOLDER_NAME, use_filename = True,
             unique_filename = True, overwrite = False\<rparr> = Inl err"
  shows "files (snd (upload_handler FOLDER_NAME c (Some f) w)) = files w"
  using assms by (simp add: upload_handler_def await_def catch_def)

lemma delete_rejected:
  "uploader_destroy c public_id = Inl err \<Longrightarrow>
   delete_handler c public_id w =
     catch err (w\<lparr>requests := requests w @ [Destroy public_id]\<rparr>)"
  by (simp add: delete_handler_def await_def)

lemma images_rejected:
  "api_resources c
     \<lparr>type = ''upload'', prefix = FOLDER FOLDER_NAME @ ''/'', max_results = 200\<rparr> = Inl err \<Longrightarrow>
   images_handler FOLDER_NAME c w =
     catch err (w\<lparr>requests := requests w @ [Resources
        \<lparr>type = ''upload'', prefix = FOLDER FOLDER_NAME @ ''/'', max_results = 200\<rparr>]\<rparr>)"
  by (simp add: images_handler_def await_def)







lemma upload_requests_any:
  "requests (snd (upload_handler FOLDER_NAME c file w)) =
     requests w @
     (case file of
        None \<Rightarrow> []
      | Some f \<Rightarrow> [Upload (path f) \<lparr>folder = FOLDER FOLDER_NAME, use_filename = True,
                     unique_filename = True, overwrite = False\<rparr>])"
proof (cases "file")
  case None
  then show ?thesis by (simp add: upload_handler_def)
next
  case (Some f)
  then show ?thesis by (simp add: upload_requests)
qed



text \<open>
  A rejected provider call is answered with 500 and \<^verbatim>\<open>err.message\<close>, and logged:
  the message itself when the rejection has one.
\<close>

lemma rejected_call_reply:
  "(uploader_upload c (path f) \<lparr>folder = FOLDER FOLDER_NAME, use_filename = True,
       unique_filename = True, overwrite = False\<rparr> = Inl err \<longrightarrow>
      fst (upload_handler FOLDER_NAME c (Some f) w) =
        \<lparr>status = 500, json = JObj [(''error'', message err)]\<rparr> \<and>
      console (snd (upload_handler FOLDER_NAME c (Some f) w)) = console w @ [err]) \<and>
   (uploader_destroy c public_id = Inl err \<longrightarrow>
      fst (delete_handler c public_id w) =
        \<lparr>status = 500, json = JObj [(''error'', message err)]\<rparr> \<and>
      console (snd (delete_handler c public_id w)) = console w @ [err]) \<and>
   (api_resources c
      \<lparr>type = ''upload'', prefix = FOLDER FOLDER_NAME @ ''/'', max_results = 200\<rparr> = Inl err \<longrightarrow>
      fst (images_handler FOLDER_NAME c w) =
        \<lparr>status = 500, json = JObj [(''error'', message err)]\<rparr> \<and>
      console (snd (images_handler FOLDER_NAME c w)) = console w @ [err])"
  by (simp add: upload_rejected delete_rejected images_rejected catch_def)






subsection \<open>The sample providers, evaluated\<close>





section \<open>Properties\<close>

text \<open>
  In every statement \<open>FOLDER_NAME\<close> is the environment variable, \<open>c\<close> the provider,
  \<open>w\<close> the world before the request; \<open>fst\<close> of a handler's result is the response
  and \<open>snd\<close> the world after it.
\<close>

subsection \<open>Upload\<close>

text \<open>
  C1. The claim: the staged file of a POST /upload is removed after the create-asset
  call on every exit path, also when the call fails, and a failing removal is never
  reported. The code removes the file only after a call that resolved (lemmas
  \<open>upload_resolved_unlinks\<close> and \<open>upload_response_ignores_world\<close>). Evaluated on a
  staged file and a provider whose upload rejects: the handler answers 500 and the
  staged file is still on disk.
\<close>

theorem upload_failure_keeps_staged_file:
  "fst (upload_handler None failing_cloudinary (Some staged_file) staged_world) =
     \<lparr>status = 500, json = JObj [(''error'', JStr ''Request Timeout'')]\<rparr> \<and>
   path staged_file \<in> files staged_world \<and>
   path staged_file \<in>
     files (snd (upload_handler None failing_cloudinary (Some staged_file) staged_world))"
  by (simp add: upload_handler_def await_def catch_def failing_cloudinary_def staged_file_def
      staged_world_def)

text \<open>
  C3. When the create-asset call of a POST /upload with a file resolves to an asset
  whose \<^verbatim>\<open>secure_url\<close> and \<^verbatim>\<open>public_id\<close> are strings, the handler answers 200
  with an object of exactly two properties: \<^verbatim>\<open>url\<close>, the asset's secure URL, and
  \<^verbatim>\<open>public_id\<close>, its public identifier.
\<close>

theorem upload_success_body:
  assumes "uploader_upload c (path f) \<lparr>folder = FOLDER FOLDER_NAME, use_filename = True,
             unique_filename = True, overwrite = False\<rparr> = Inr result"
    and "get_prop result ''secure_url'' = Inr (JStr secure_url)"
    and "get_prop result ''public_id'' = Inr (JStr public_id)"
  shows "fst (upload_handler FOLDER_NAME c (Some f) w) =
           \<lparr>status = 200,
            json = JObj [(''url'', JStr secure_url), (''public_id'', JStr public_id)]\<rparr>"
  using assms by (simp add: upload_handler_def await_def Let_def)

theorem upload_success_body_witness:
  "fst (upload_handler None working_cloudinary (Some staged_file) staged_world) =
     \<lparr>status = 200, json = JObj [(''url'', JStr ''https://res.example/cat_x1.png''),
        (''public_id'', JStr ''portfolio-gallery/cat_x1'')]\<rparr>"
  using upload_success_body [of working_cloudinary staged_file None _
      "''https://res.example/cat_x1.png''" "''portfolio-gallery/cat_x1''" staged_world]
  by (simp add: working_cloudinary_def FOLDER_def)

text \<open>
  C4. A POST /upload without a file part is answered with status 400 and a body whose
  \<^verbatim>\<open>error\<close> property is set; the world is left as it was, so no call to the
  provider was sent (and nothing was logged or removed).
\<close>

theorem upload_without_file:
  "status (fst (upload_handler FOLDER_NAME c None w)) = 400 \<and>
   json (fst (upload_handler FOLDER_NAME c None w)) = JObj [(''error'', JStr ''No file'')] \<and>
   get_prop (json (fst (upload_handler FOLDER_NAME c None w))) ''error'' = Inr (JStr ''No file'') \<and>
   requests (snd (upload_handler FOLDER_NAME c None w)) = requests w \<and>
   snd (upload_handler FOLDER_NAME c None w) = w"
  by (simp add: upload_handler_def)

text \<open>
  C9. The calls a POST /upload sends to the provider: none without a file, and with a
  file one create-asset call for the staged path whose options are the folder and
  exactly the three flags \<^verbatim>\<open>use_filename: true\<close>, \<^verbatim>\<open>unique_filename: true\<close>
  and \<^verbatim>\<open>overwrite: false\<close>.
\<close>

theorem upload_flags:
  "\<exists>calls. requests (snd (upload_handler FOLDER_NAME c file w)) = requests w @ calls \<and>
     calls = (case file of
                None \<Rightarrow> []
              | Some f \<Rightarrow> [Upload (path f) \<lparr>folder = FOLDER FOLDER_NAME, use_filename = True,
                             unique_filename = True, overwrite = False\<rparr>]) \<and>
     list_all (\<lambda>rc. case rc of
                  Upload p opts \<Rightarrow> use_filename opts \<and> unique_filename opts \<and> \<not> overwrite opts
                | _ \<Rightarrow> False) calls"
  by (simp add: upload_requests_any split: option.splits)

theorem upload_flags_witness:
  "requests (snd (upload_handler None working_cloudinary (Some staged_file) staged_world)) =
     [Upload ''uploads/3f9c'' \<lparr>folder = ''portfolio-gallery'', use_filename = True,
        unique_filename = True, overwrite = False\<rparr>]"
  using upload_flags [of None working_cloudinary "Some staged_file" staged_world]
  by (simp add: staged_world_def staged_file_def FOLDER_def)

subsection \<open>Delete\<close>

text \<open>
  C2, as stated: the \<^verbatim>\<open>result\<close> property of the reply is the provider's outcome
  indicator string. It is not: the handler wraps the whole value the destroy call
  resolved to. For a provider that resolves to \<^verbatim>\<open>{result: "ok"}\<close> the reply is
  \<^verbatim>\<open>{result: {result: "ok"}}\<close>, whose \<^verbatim>\<open>result\<close> is an object, not the string.
\<close>

theorem delete_result_is_whole_reply:
  "uploader_destroy working_cloudinary ''portfolio-gallery/cat_x1'' =
     Inr (JObj [(''result'', JStr ''ok'')]) \<and>
   get_prop (json (fst (delete_handler working_cloudinary ''portfolio-gallery/cat_x1''
       staged_world))) ''result'' = Inr (JObj [(''result'', JStr ''ok'')]) \<and>
   get_prop (json (fst (delete_handler working_cloudinary ''portfolio-gallery/cat_x1''
       staged_world))) ''result'' \<noteq> Inr (JStr ''ok'')"
  by (simp add: delete_handler_def await_def working_cloudinary_def)

text \<open>
  C2, amended. For every identifier passed to DELETE /delete/:public_id, the handler
  sends that identifier to the provider as it is, and when the destroy call resolves
  the reply has status 200 and one property \<^verbatim>\<open>result\<close> whose value is the value
  the call resolved to, unmodified, whatever it says about the asset.
\<close>

theorem delete_relays_reply:
  assumes "uploader_destroy c public_id = Inr result"
  shows "status (fst (delete_handler c public_id w)) = 200 \<and>
         json (fst (delete_handler c public_id w)) = JObj [(''result'', result)] \<and>
         get_prop (json (fst (delete_handler c public_id w))) ''result'' = Inr result \<and>
         requests (snd (delete_handler c public_id w)) = requests w @ [Destroy public_id]"
  using assms by (simp add: delete_handler_def await_def)

theorem delete_relays_reply_witness:
  "uploader_destroy working_cloudinary ''no such asset'' =
     Inr (JObj [(''result'', JStr ''not found'')]) \<and>
   status (fst (delete_handler working_cloudinary ''no such asset'' staged_world)) = 200 \<and>
   json (fst (delete_handler working_cloudinary ''no such asset'' staged_world)) =
     JObj [(''result'', JObj [(''result'', JStr ''not found'')])] \<and>
   requests (snd (delete_handler working_cloudinary ''no such asset'' staged_world)) =
     [Destroy ''no such asset'']"
proof -
  have h: "uploader_destroy working_cloudinary ''no such asset'' =
             Inr (JObj [(''result'', JStr ''not found'')])"
    by (simp add: working_cloudinary_def)
  show ?thesis
    using h delete_relays_reply [OF h, of staged_world] by (simp add: staged_world_def)
qed

subsection \<open>List\<close>






text \<open>
  C10. When the list-assets call resolves to an object whose \<^verbatim>\<open>resources\<close> is
  absent, \<^verbatim>\<open>null\<close> or \<^verbatim>\<open>undefined\<close>, GET /images answers 200 with the empty
  array.
\<close>

theorem images_without_resources:
  assumes "api_resources c
             \<lparr>type = ''upload'', prefix = FOLDER FOLDER_NAME @ ''/'', max_results = 200\<rparr> =
           Inr (JObj fs)"
    and "map_of fs ''resources'' = None \<or> map_of fs ''resources'' = Some JNull \<or>
         map_of fs ''resources'' = Some JUndefined"
  shows "fst (images_handler FOLDER_NAME c w) = \<lparr>status = 200, json = JArr []\<rparr>"
  using assms by (auto simp: images_handler_def await_def)

theorem images_without_resources_witness:
  "api_resources bare_cloudinary
     \<lparr>type = ''upload'', prefix = FOLDER None @ ''/'', max_results = 200\<rparr> =
     Inr (JObj [(''rate_limit_remaining'', JNum 499)]) \<and>
   map_of [(''rate_limit_remaining'', JNum 499)] ''resources'' = None \<and>
   fst (images_handler None bare_cloudinary staged_world) = \<lparr>status = 200, json = JArr []\<rparr>"
proof -
  have r: "api_resources bare_cloudinary
             \<lparr>type = ''upload'', prefix = FOLDER None @ ''/'', max_results = 200\<rparr> =
           Inr (JObj [(''rate_limit_remaining'', JNum 499)])"
    by (simp add: bare_cloudinary_def)
  have n: "map_of [(''rate_limit_remaining'', JNum 499)] ''resources'' = None \<or>
           map_of [(''rate_limit_remaining'', JNum 499)] ''resources'' = Some JNull \<or>
           map_of [(''rate_limit_remaining'', JNum 499)] ''resources'' = Some JUndefined"
    by simp
  show ?thesis
    using r images_without_resources [OF r n, of staged_world] by simp
qed

subsection \<open>All three handlers\<close>

text \<open>
  C7. The claim: whenever the provider call of a handler throws, the reply is 500 with
  the provider's error message under \<^verbatim>\<open>error\<close>, and the error is logged. The
  \<^verbatim>\<open>catch\<close> blocks read \<^verbatim>\<open>err.message\<close>, which is the message only for a
  rejection that has one at its top (lemma \<open>rejected_call_reply\<close>). Evaluated on the
  object the SDK rejects with on a timeout, whose message sits under \<^verbatim>\<open>error\<close>:
  each of the three handlers logs the object and answers 500, but with
  \<^verbatim>\<open>error: undefined\<close>, so the provider's message is not in the reply.
\<close>

theorem wrapped_rejection_loses_message:
  "fst (upload_handler None timed_out_cloudinary (Some staged_file) staged_world) =
     \<lparr>status = 500, json = JObj [(''error'', JUndefined)]\<rparr> \<and>
   console (snd (upload_handler None timed_out_cloudinary (Some staged_file) staged_world)) =
     [sdk_timeout] \<and>
   fst (delete_handler timed_out_cloudinary ''portfolio-gallery/cat_x1'' staged_world) =
     \<lparr>status = 500, json = JObj [(''error'', JUndefined)]\<rparr> \<and>
   console (snd (delete_handler timed_out_cloudinary ''portfolio-gallery/cat_x1''
     staged_world)) = [sdk_timeout] \<and>
   fst (images_handler None timed_out_cloudinary staged_world) =
     \<lparr>status = 500, json = JObj [(''error'', JUndefined)]\<rparr> \<and>
   console (snd (images_handler None timed_out_cloudinary staged_world)) = [sdk_timeout] \<and>
   sdk_timeout =
     Thrown [(''error'', JObj [(''message'', JStr ''Request Timeout''),
                               (''http_code'', JNum 499), (''name'', JStr ''TimeoutError'')])]"
  by (simp add: upload_handler_def delete_handler_def images_handler_def await_def catch_def
      timed_out_cloudinary_def staged_world_def) (simp add: sdk_timeout_def)




end
